theory Spec2Isabelle
  imports Complex_Main
begin

section \<open>CanvasLib: the Canvas wrapper around a 2D drawing context\<close>

text \<open>
  The repository holds the class \<open>Canvas\<close> twice: \<open>src/Canvas.js\<close> (fields written
  \<open>this._canvas\<close>, \<open>this._context\<close>, ...) and \<open>src/unnamed/part_000\<close> (private fields
  \<open>this.#canvas\<close>, \<open>this.#context\<close>, ...). The bodies of the methods are the same in both
  files except for \<open>_refreshFont\<close>/\<open>#refreshFont\<close> and \<open>clear\<close>; \<open>setSize\<close> and
  \<open>drawPolygon\<close> exist in \<open>part_000\<close> only. The two files are told apart by a
  \<open>variant\<close> argument where they differ.

  Numbers are modelled as exact rationals (\<open>0.5\<close> is \<open>1/2\<close>); the rounding of IEEE doubles
  is not modelled. Angles are counted in quarter turns, the unit being \<open>Math.PI * 0.5\<close>:
  the source only uses \<open>0\<close>, \<open>Math.PI * 0.5\<close>, \<open>Math.PI\<close>, \<open>Math.PI * 1.5\<close> and
  \<open>Math.PI * 2\<close>, which are \<open>0\<close>, \<open>1\<close>, \<open>2\<close>, \<open>3\<close> and \<open>4\<close>.
\<close>

datatype variant = CanvasJs | Part000

subsection \<open>Values\<close>

text \<open>
  A colour argument is \<open>string | CanvasGradient | CanvasPattern\<close>; gradients and patterns
  are opaque handles. \<open>null\<close> (or an omitted argument, which the default parameter turns
  into \<open>null\<close>) is \<open>None\<close> of \<open>paint option\<close>.
\<close>

datatype paint = Colour string | Gradient nat | Pattern nat

text \<open>The value of an array read \<open>vertexes[i]\<close>: a number, or \<open>undefined\<close> past the end.\<close>

datatype jsval = Num rat | Undefined

definition js_nth :: "rat list \<Rightarrow> nat \<Rightarrow> jsval" where
  "js_nth xs i = (if i < length xs then Num (xs ! i) else Undefined)"

text \<open>\<open>Array.prototype.join\<close> on an array of strings.\<close>

fun js_join :: "string \<Rightarrow> string list \<Rightarrow> string" where
  "js_join sep [] = []"
| "js_join sep [x] = x"
| "js_join sep (x # y # ys) = x @ sep @ js_join sep (y # ys)"

subsection \<open>The drawing context\<close>

text \<open>
  The drawing context (\<open>CanvasRenderingContext2D\<close>) belongs to the host, not to the
  repository. It is modelled as a recorder: its properties hold what was last assigned to
  them, and every method call is appended to \<open>calls\<close>. A painting call is recorded with the
  style the context holds at that moment, which is the style the host paints with.
  What the host does with a value it rejects (a colour or font string it cannot parse, a
  negative radius, a coordinate that is not finite) is outside the model.
\<close>

datatype call =
    BeginPath
  | MoveTo jsval jsval
  | LineTo jsval jsval
  | Arc rat rat rat nat nat
  | ClosePath
  | Fill paint
  | Stroke paint
  | FillRect rat rat rat rat paint
  | StrokeRect rat rat rat rat paint
  | ClearRect rat rat rat rat
  | FillText string rat rat paint
  | StrokeText string rat rat paint

record context2d =
  fillStyle :: paint
  strokeStyle :: paint
  font :: string
  textAlign :: string
  textBaseline :: string
  lineWidth :: rat
  calls :: "call list"

definition emit :: "call \<Rightarrow> context2d \<Rightarrow> context2d" where
  "emit k c = c\<lparr>calls := calls c @ [k]\<rparr>"

definition beginPath :: "context2d \<Rightarrow> context2d" where
  "beginPath c = emit BeginPath c"

definition moveTo :: "jsval \<Rightarrow> jsval \<Rightarrow> context2d \<Rightarrow> context2d" where
  "moveTo x y c = emit (MoveTo x y) c"

definition lineTo :: "jsval \<Rightarrow> jsval \<Rightarrow> context2d \<Rightarrow> context2d" where
  "lineTo x y c = emit (LineTo x y) c"

definition arc :: "rat \<Rightarrow> rat \<Rightarrow> rat \<Rightarrow> nat \<Rightarrow> nat \<Rightarrow> context2d \<Rightarrow> context2d" where
  "arc x y r a0 a1 c = emit (Arc x y r a0 a1) c"

definition closePath :: "context2d \<Rightarrow> context2d" where
  "closePath c = emit ClosePath c"

definition fill :: "context2d \<Rightarrow> context2d" where
  "fill c = emit (Fill (fillStyle c)) c"

definition stroke :: "context2d \<Rightarrow> context2d" where
  "stroke c = emit (Stroke (strokeStyle c)) c"

definition fillRect :: "rat \<Rightarrow> rat \<Rightarrow> rat \<Rightarrow> rat \<Rightarrow> context2d \<Rightarrow> context2d" where
  "fillRect x y w h c = emit (FillRect x y w h (fillStyle c)) c"

definition strokeRect :: "rat \<Rightarrow> rat \<Rightarrow> rat \<Rightarrow> rat \<Rightarrow> context2d \<Rightarrow> context2d" where
  "strokeRect x y w h c = emit (StrokeRect x y w h (strokeStyle c)) c"

definition clearRect :: "rat \<Rightarrow> rat \<Rightarrow> rat \<Rightarrow> rat \<Rightarrow> context2d \<Rightarrow> context2d" where
  "clearRect x y w h c = emit (ClearRect x y w h) c"

definition fillText :: "string \<Rightarrow> rat \<Rightarrow> rat \<Rightarrow> context2d \<Rightarrow> context2d" where
  "fillText t x y c = emit (FillText t x y (fillStyle c)) c"

definition strokeText :: "string \<Rightarrow> rat \<Rightarrow> rat \<Rightarrow> context2d \<Rightarrow> context2d" where
  "strokeText t x y c = emit (StrokeText t x y (strokeStyle c)) c"

text \<open>
  \<open>if(color !== null)this._context.fillStyle = color;\<close> and the same line for
  \<open>strokeStyle\<close>.
\<close>

definition assign_fillStyle :: "paint option \<Rightarrow> context2d \<Rightarrow> context2d" where
  "assign_fillStyle color c = (case color of None \<Rightarrow> c | Some p \<Rightarrow> c\<lparr>fillStyle := p\<rparr>)"

definition assign_strokeStyle :: "paint option \<Rightarrow> context2d \<Rightarrow> context2d" where
  "assign_strokeStyle color c = (case color of None \<Rightarrow> c | Some p \<Rightarrow> c\<lparr>strokeStyle := p\<rparr>)"

text \<open>
  What \<open>getContext('2d')\<close> returns for a new canvas element: the host's initial property
  values and no call made yet.
\<close>

definition new_context :: context2d where
  "new_context =
     \<lparr>fillStyle = Colour ''#000000'', strokeStyle = Colour ''#000000'',
      font = ''10px sans-serif'', textAlign = ''start'', textBaseline = ''alphabetic'',
      lineWidth = 1, calls = []\<rparr>"

subsection \<open>The Canvas object\<close>

record element =
  width :: rat
  height :: rat

record canvas =
  canvas_elem :: element
  ctx :: context2d
  usePositionFix :: bool
  fontDecorations :: "string list"
  fontSize :: string
  fontFamily :: string

text \<open>
  The only key read from \<open>options\<close> is \<open>usePositionFix\<close>; \<open>None\<close> is a key that is
  absent, \<open>null\<close> or \<open>undefined\<close> (the test is \<open>!= null\<close>).
\<close>

record options =
  opt_usePositionFix :: "bool option"

definition constructor :: "rat \<Rightarrow> rat \<Rightarrow> options \<Rightarrow> canvas" where
  "constructor w h opts =
     \<lparr>canvas_elem = \<lparr>width = w, height = h\<rparr>,
      ctx = new_context\<lparr>textAlign := ''left'', textBaseline := ''top''\<rparr>,
      usePositionFix = (case opt_usePositionFix opts of Some b \<Rightarrow> b | None \<Rightarrow> True),
      fontDecorations = [],
      fontSize = ''10px'',
      fontFamily = ''sans-serif''\<rparr>"

definition getWidth :: "canvas \<Rightarrow> rat" where
  "getWidth s = width (canvas_elem s)"

definition getHeight :: "canvas \<Rightarrow> rat" where
  "getHeight s = height (canvas_elem s)"

text \<open>
  \<open>setSize\<close>, a method of \<open>part_000\<close> only, is not modelled: assigning the width or
  height of the element makes the host reset the context, which the recorder does not
  describe. No property below is about it.
\<close>

subsection \<open>Font state\<close>

text \<open>
  \<open>Canvas.js\<close>: \<open>`${this._fontDecorations.join(' ')} ${this._fontSize} "${this._fontFamily}"`\<close>;
  \<open>part_000\<close>: the same without the double quotes around the family.
\<close>

definition refreshFont :: "variant \<Rightarrow> canvas \<Rightarrow> canvas" where
  "refreshFont v s =
     s\<lparr>ctx := (ctx s)\<lparr>font :=
        js_join '' '' (fontDecorations s) @ '' '' @ fontSize s @ '' '' @
        (case v of
           CanvasJs \<Rightarrow> [CHR 0x22] @ fontFamily s @ [CHR 0x22]
         | Part000 \<Rightarrow> fontFamily s)\<rparr>\<rparr>"

text \<open>
  The template literal \<open>`${size}px`\<close> converts \<open>size\<close> to a string with the language's own
  conversion, which is no code of the repository: it is the parameter \<open>to_string\<close>, and the
  type \<open>'n\<close> of sizes is left open.
\<close>

definition setFontSize :: "variant \<Rightarrow> ('n \<Rightarrow> string) \<Rightarrow> 'n \<Rightarrow> canvas \<Rightarrow> canvas" where
  "setFontSize v to_string n s = refreshFont v (s\<lparr>fontSize := to_string n @ ''px''\<rparr>)"

definition setFontFamily :: "variant \<Rightarrow> string \<Rightarrow> canvas \<Rightarrow> canvas" where
  "setFontFamily v family s = refreshFont v (s\<lparr>fontFamily := family\<rparr>)"

text \<open>\<open>decorations = []\<close>: an omitted argument (\<open>None\<close>) is the empty array.\<close>

definition setFontDecorations :: "variant \<Rightarrow> string list option \<Rightarrow> canvas \<Rightarrow> canvas" where
  "setFontDecorations v decorations s =
     refreshFont v (s\<lparr>fontDecorations := (case decorations of None \<Rightarrow> [] | Some ds \<Rightarrow> ds)\<rparr>)"

definition setFont ::
  "variant \<Rightarrow> ('n \<Rightarrow> string) \<Rightarrow> string option \<Rightarrow> 'n option \<Rightarrow> string list option \<Rightarrow>
   canvas \<Rightarrow> canvas" where
  "setFont v to_string family sz decorations s =
     (let s1 = (case family of None \<Rightarrow> s | Some f \<Rightarrow> s\<lparr>fontFamily := f\<rparr>);
          s2 = (case sz of None \<Rightarrow> s1 | Some n \<Rightarrow> s1\<lparr>fontSize := to_string n @ ''px''\<rparr>);
          s3 = (case decorations of None \<Rightarrow> s2 | Some ds \<Rightarrow> s2\<lparr>fontDecorations := ds\<rparr>)
      in refreshFont v s3)"

subsection \<open>Text layout and line width\<close>

definition setTextAlign :: "string \<Rightarrow> canvas \<Rightarrow> canvas" where
  "setTextAlign align s = s\<lparr>ctx := (ctx s)\<lparr>textAlign := align\<rparr>\<rparr>"

definition setTextBaseline :: "string \<Rightarrow> canvas \<Rightarrow> canvas" where
  "setTextBaseline baseline s = s\<lparr>ctx := (ctx s)\<lparr>textBaseline := baseline\<rparr>\<rparr>"

definition setLineWidth :: "rat \<Rightarrow> canvas \<Rightarrow> canvas" where
  "setLineWidth w s = s\<lparr>ctx := (ctx s)\<lparr>lineWidth := w\<rparr>\<rparr>"

subsection \<open>Drawing\<close>

text \<open>\<open>if(this._usePositionFix){ x += 0.5; ... }\<close> for one coordinate.\<close>

definition posfix :: "canvas \<Rightarrow> rat \<Rightarrow> rat" where
  "posfix s x = (if usePositionFix s then x + 1/2 else x)"

definition drawLine :: "rat \<Rightarrow> rat \<Rightarrow> rat \<Rightarrow> rat \<Rightarrow> paint option \<Rightarrow> canvas \<Rightarrow> canvas" where
  "drawLine x1 y1 x2 y2 color s =
     (let x1' = posfix s x1; y1' = posfix s y1; x2' = posfix s x2; y2' = posfix s y2;
          c1 = assign_strokeStyle color (ctx s);
          c2 = beginPath c1;
          c3 = moveTo (Num x1') (Num y1') c2;
          c4 = lineTo (Num x2') (Num y2') c3
      in s\<lparr>ctx := stroke c4\<rparr>)"

definition drawRect ::
  "rat \<Rightarrow> rat \<Rightarrow> rat \<Rightarrow> rat \<Rightarrow> paint option \<Rightarrow> bool \<Rightarrow> canvas \<Rightarrow> canvas" where
  "drawRect x y w h color isFill s =
     (if isFill then
        s\<lparr>ctx := fillRect x y w h (assign_fillStyle color (ctx s))\<rparr>
      else
        (let x' = posfix s x; y' = posfix s y
         in s\<lparr>ctx := strokeRect x' y' w h (assign_strokeStyle color (ctx s))\<rparr>))"

text \<open>
  In \<open>drawRoundedRect\<close> the four arcs and \<open>closePath\<close> come first, from the arguments as
  passed; \<open>x += 0.5; y += 0.5\<close> stands in the stroke branch after them, and neither
  variable is read again.
\<close>

definition drawRoundedRect ::
  "rat \<Rightarrow> rat \<Rightarrow> rat \<Rightarrow> rat \<Rightarrow> rat \<Rightarrow> paint option \<Rightarrow> bool \<Rightarrow> canvas \<Rightarrow> canvas" where
  "drawRoundedRect x y w h r color isFill s =
     (let c1 = beginPath (ctx s);
          c2 = arc (x + r) (y + r) r 2 3 c1;
          c3 = arc (x + w - r) (y + r) r 3 0 c2;
          c4 = arc (x + w - r) (y + h - r) r 0 1 c3;
          c5 = arc (x + r) (y + h - r) r 1 2 c4;
          c6 = closePath c5
      in if isFill then
           s\<lparr>ctx := fill (assign_fillStyle color c6)\<rparr>
         else
           (let x' = posfix s x; y' = posfix s y
            in s\<lparr>ctx := stroke (assign_strokeStyle color c6)\<rparr>))"

definition drawCircle ::
  "rat \<Rightarrow> rat \<Rightarrow> rat \<Rightarrow> paint option \<Rightarrow> bool \<Rightarrow> canvas \<Rightarrow> canvas" where
  "drawCircle x y r color isFill s =
     (let c1 = beginPath (ctx s);
          c2 = arc x y r 0 4 c1;
          c3 = closePath c2
      in if isFill then
           s\<lparr>ctx := fill (assign_fillStyle color c3)\<rparr>
         else
           s\<lparr>ctx := stroke (assign_strokeStyle color c3)\<rparr>)"

text \<open>
  \<open>drawPolygon\<close> (\<open>part_000\<close> only). The loop
  \<open>for(let i = 2; i < vertexes.length; i += 2) moveTo(vertexes[i], vertexes[i + 1])\<close>:
\<close>

function polygon_loop :: "rat list \<Rightarrow> nat \<Rightarrow> context2d \<Rightarrow> context2d" where
  "polygon_loop vs i c =
     (if i < length vs
      then polygon_loop vs (i + 2) (moveTo (js_nth vs i) (js_nth vs (i + 1)) c)
      else c)"
  by pat_completeness auto
termination
  by (relation "measure (\<lambda>(vs, i, c). length vs - i)") auto

definition drawPolygon :: "rat list option \<Rightarrow> paint option \<Rightarrow> bool \<Rightarrow> canvas \<Rightarrow> canvas" where
  "drawPolygon vertexes color isFill s =
     (case vertexes of
        None \<Rightarrow> s
      | Some vs \<Rightarrow>
          if length vs < 2 then s
          else
            (let c1 = beginPath (ctx s);
                 c2 = lineTo (js_nth vs 0) (js_nth vs 1) c1;
                 c3 = polygon_loop vs 2 c2;
                 c4 = closePath c3
             in if isFill then
                  s\<lparr>ctx := fill (assign_fillStyle color c4)\<rparr>
                else
                  s\<lparr>ctx := stroke (assign_strokeStyle color c4)\<rparr>))"

definition drawText ::
  "rat \<Rightarrow> rat \<Rightarrow> string \<Rightarrow> paint option \<Rightarrow> bool \<Rightarrow> canvas \<Rightarrow> canvas" where
  "drawText x y t color isFill s =
     (let x' = posfix s x; y' = posfix s y
      in if isFill then
           s\<lparr>ctx := fillText t x' y' (assign_fillStyle color (ctx s))\<rparr>
         else
           s\<lparr>ctx := strokeText t x' y' (assign_strokeStyle color (ctx s))\<rparr>)"

definition drawFill :: "paint option \<Rightarrow> canvas \<Rightarrow> canvas" where
  "drawFill color s = s\<lparr>ctx := fill (assign_fillStyle color (ctx s))\<rparr>"

definition drawStroke :: "paint option \<Rightarrow> canvas \<Rightarrow> canvas" where
  "drawStroke color s = s\<lparr>ctx := stroke (assign_strokeStyle color (ctx s))\<rparr>"

text \<open>
  \<open>clear\<close>. \<open>Canvas.js\<close>: assign the colour if there is one, then \<open>fillRect\<close> over the whole
  element. \<open>part_000\<close>: \<open>clearRect\<close> over the whole element first, then assign and
  \<open>fillRect\<close> only \<open>if(color !== null && color !== 'clear')\<close>.
\<close>

definition clear :: "variant \<Rightarrow> paint option \<Rightarrow> canvas \<Rightarrow> canvas" where
  "clear v color s =
     (let w = width (canvas_elem s); h = height (canvas_elem s) in
      case v of
        CanvasJs \<Rightarrow> s\<lparr>ctx := fillRect 0 0 w h (assign_fillStyle color (ctx s))\<rparr>
      | Part000 \<Rightarrow>
          (let c1 = clearRect 0 0 w h (ctx s) in
           case color of
             None \<Rightarrow> s\<lparr>ctx := c1\<rparr>
           | Some p \<Rightarrow>
               if p \<noteq> Colour ''clear''
               then s\<lparr>ctx := fillRect 0 0 w h (c1\<lparr>fillStyle := p\<rparr>)\<rparr>
               else s\<lparr>ctx := c1\<rparr>))"

subsection \<open>Observations used by the properties\<close>

text \<open>
  The colour a call draws with: the colour passed, or for \<open>null\<close> the one the context
  already holds. Written from the words of the sticky-colour contract, to be compared with
  what the methods do.
\<close>

definition pick :: "paint option \<Rightarrow> paint \<Rightarrow> paint" where
  "pick color old = (case color of None \<Rightarrow> old | Some p \<Rightarrow> p)"

text \<open>The fill colour, respectively the stroke colour, that a recorded call painted with.\<close>

fun used_fill :: "call \<Rightarrow> paint option" where
  "used_fill (Fill p) = Some p"
| "used_fill (FillRect x y w h p) = Some p"
| "used_fill (FillText t x y p) = Some p"
| "used_fill _ = None"

fun used_stroke :: "call \<Rightarrow> paint option" where
  "used_stroke (Stroke p) = Some p"
| "used_stroke (StrokeRect x y w h p) = Some p"
| "used_stroke (StrokeText t x y p) = Some p"
| "used_stroke _ = None"

text \<open>The last call the context received, if any, and the colour it painted with.\<close>

definition last_call :: "canvas \<Rightarrow> call option" where
  "last_call s = (if calls (ctx s) = [] then None else Some (last (calls (ctx s))))"

definition painted_fill :: "canvas \<Rightarrow> paint option" where
  "painted_fill s = (case last_call s of None \<Rightarrow> None | Some k \<Rightarrow> used_fill k)"

definition painted_stroke :: "canvas \<Rightarrow> paint option" where
  "painted_stroke s = (case last_call s of None \<Rightarrow> None | Some k \<Rightarrow> used_stroke k)"

text \<open>
  \<open>sticky_fill color s s'\<close>: going from \<open>s\<close> to \<open>s'\<close>, the fill colour became the colour
  passed (or stayed, for \<open>null\<close>), the stroke colour stayed, and the last call painted with
  that fill colour. \<open>sticky_stroke\<close> is the same with the two colours exchanged.
\<close>

definition sticky_fill :: "paint option \<Rightarrow> canvas \<Rightarrow> canvas \<Rightarrow> bool" where
  "sticky_fill color s s' =
     (fillStyle (ctx s') = pick color (fillStyle (ctx s)) \<and>
      strokeStyle (ctx s') = strokeStyle (ctx s) \<and>
      painted_fill s' = Some (pick color (fillStyle (ctx s))))"

definition sticky_stroke :: "paint option \<Rightarrow> canvas \<Rightarrow> canvas \<Rightarrow> bool" where
  "sticky_stroke color s s' =
     (strokeStyle (ctx s') = pick color (strokeStyle (ctx s)) \<and>
      fillStyle (ctx s') = fillStyle (ctx s) \<and>
      painted_stroke s' = Some (pick color (strokeStyle (ctx s))))"

text \<open>The presentation state of the wrapper and the size of its surface.\<close>

definition presentation ::
  "canvas \<Rightarrow> bool \<times> string \<times> string \<times> string list \<times> rat \<times> rat" where
  "presentation s =
     (usePositionFix s, fontFamily s, fontSize s, fontDecorations s, getWidth s, getHeight s)"

text \<open>A canvas as the constructor leaves it, for the concrete instances below.\<close>

definition fresh :: canvas where
  "fresh = constructor 100 50 \<lparr>opt_usePositionFix = None\<rparr>"

subsection \<open>Sequences of draw calls\<close>

text \<open>A call of one of the draw methods with its arguments, and the method it runs.\<close>

datatype draw_call =
    DrawLine rat rat rat rat "paint option"
  | DrawRect rat rat rat rat "paint option" bool
  | DrawRoundedRect rat rat rat rat rat "paint option" bool
  | DrawCircle rat rat rat "paint option" bool
  | DrawPolygon "rat list option" "paint option" bool
  | DrawText rat rat string "paint option" bool
  | DrawFill "paint option"
  | DrawStroke "paint option"

fun draw_step :: "draw_call \<Rightarrow> canvas \<Rightarrow> canvas" where
  "draw_step (DrawLine x1 y1 x2 y2 color) s = drawLine x1 y1 x2 y2 color s"
| "draw_step (DrawRect x y w h color isFill) s = drawRect x y w h color isFill s"
| "draw_step (DrawRoundedRect x y w h r color isFill) s = drawRoundedRect x y w h r color isFill s"
| "draw_step (DrawCircle x y r color isFill) s = drawCircle x y r color isFill s"
| "draw_step (DrawPolygon vertexes color isFill) s = drawPolygon vertexes color isFill s"
| "draw_step (DrawText x y t color isFill) s = drawText x y t color isFill s"
| "draw_step (DrawFill color) s = drawFill color s"
| "draw_step (DrawStroke color) s = drawStroke color s"

definition run_draw_calls :: "draw_call list \<Rightarrow> canvas \<Rightarrow> canvas" where
  "run_draw_calls ds s = fold draw_step ds s"

text \<open>
  A draw call that passes no fill colour: its colour is \<open>null\<close>, or it is in stroke or
  line mode.
\<close>

fun passes_no_fill :: "draw_call \<Rightarrow> bool" where
  "passes_no_fill (DrawLine x1 y1 x2 y2 color) = True"
| "passes_no_fill (DrawRect x y w h color isFill) = (color = None \<or> \<not> isFill)"
| "passes_no_fill (DrawRoundedRect x y w h r color isFill) = (color = None \<or> \<not> isFill)"
| "passes_no_fill (DrawCircle x y r color isFill) = (color = None \<or> \<not> isFill)"
| "passes_no_fill (DrawPolygon vertexes color isFill) = (color = None \<or> \<not> isFill)"
| "passes_no_fill (DrawText x y t color isFill) = (color = None \<or> \<not> isFill)"
| "passes_no_fill (DrawFill color) = (color = None)"
| "passes_no_fill (DrawStroke color) = True"

subsection \<open>Sequences of font calls\<close>

datatype 'n font_call =
    SetFontSize 'n
  | SetFontFamily string
  | SetFontDecorations "string list option"
  | SetFont "string option" "'n option" "string list option"

fun font_step :: "variant \<Rightarrow> ('n \<Rightarrow> string) \<Rightarrow> 'n font_call \<Rightarrow> canvas \<Rightarrow> canvas" where
  "font_step v to_string (SetFontSize n) s = setFontSize v to_string n s"
| "font_step v to_string (SetFontFamily f) s = setFontFamily v f s"
| "font_step v to_string (SetFontDecorations ds) s = setFontDecorations v ds s"
| "font_step v to_string (SetFont f n ds) s = setFont v to_string f n ds s"

definition run_font_calls ::
  "variant \<Rightarrow> ('n \<Rightarrow> string) \<Rightarrow> 'n font_call list \<Rightarrow> canvas \<Rightarrow> canvas" where
  "run_font_calls v to_string cs s = fold (font_step v to_string) cs s"

text \<open>
  The specification's side, from its words: the value most recently set of each of the
  three fields, each on its own, starting from the defaults (no decoration, size 10,
  family sans-serif); and the string \<open><decorations joined by a space> <size>px <family>\<close>,
  with the family in double quotes for \<open>Canvas.js\<close>.
\<close>

record font_fields =
  decorations_set :: "string list"
  size_set :: string
  family_set :: string

definition default_font_fields :: font_fields where
  "default_font_fields =
     \<lparr>decorations_set = [], size_set = ''10'', family_set = ''sans-serif''\<rparr>"

fun latest :: "('n \<Rightarrow> string) \<Rightarrow> 'n font_call \<Rightarrow> font_fields \<Rightarrow> font_fields" where
  "latest to_string (SetFontSize n) f = f\<lparr>size_set := to_string n\<rparr>"
| "latest to_string (SetFontFamily fam) f = f\<lparr>family_set := fam\<rparr>"
| "latest to_string (SetFontDecorations ds) f =
     f\<lparr>decorations_set := (case ds of None \<Rightarrow> [] | Some d \<Rightarrow> d)\<rparr>"
| "latest to_string (SetFont fam n ds) f =
     \<lparr>decorations_set = (case ds of None \<Rightarrow> decorations_set f | Some d \<Rightarrow> d),
      size_set = (case n of None \<Rightarrow> size_set f | Some k \<Rightarrow> to_string k),
      family_set = (case fam of None \<Rightarrow> family_set f | Some x \<Rightarrow> x)\<rparr>"

definition composed_font :: "variant \<Rightarrow> font_fields \<Rightarrow> string" where
  "composed_font v f =
     js_join '' '' (decorations_set f) @ '' '' @ size_set f @ ''px '' @
     (case v of
        CanvasJs \<Rightarrow> [CHR 0x22] @ family_set f @ [CHR 0x22]
      | Part000 \<Rightarrow> family_set f)"

text \<open>
  How the wrapper's three font fields stand to the specification's three values: the
  wrapper keeps the size with its unit.
\<close>

definition font_rel :: "canvas \<Rightarrow> font_fields \<Rightarrow> bool" where
  "font_rel s f =
     (fontDecorations s = decorations_set f \<and> fontSize s = size_set f @ ''px'' \<and>
      fontFamily s = family_set f)"

text \<open>Decimal digits of a natural number, the size conversion of the concrete instances.\<close>

definition digit :: "nat \<Rightarrow> char" where
  "digit d = ''0123456789'' ! d"

fun decimal :: "nat \<Rightarrow> string" where
  "decimal n = (if n < 10 then [digit n] else decimal (n div 10) @ [digit (n mod 10)])"

subsection \<open>The outline of a path\<close>

text \<open>
  Modelled from the spec: the geometry of the path that the host context builds from
  \<open>beginPath\<close>, \<open>moveTo\<close>, \<open>lineTo\<close>, \<open>arc\<close> and \<open>closePath\<close> (methods of the host's
  \<open>CanvasRenderingContext2D\<close>, no code of the repository). An arc starts at the point of
  its circle at the start angle and ends at the point at the end angle; a straight edge
  joins the point reached so far to the start of the next arc or to the target of a
  \<open>lineTo\<close>; an arc of radius 0 is the single point at its centre; \<open>closePath\<close> joins the
  point reached to the first point of the sub-path; \<open>moveTo\<close>, and a \<open>lineTo\<close> on an empty
  path, start a sub-path; a coordinate that is not a number makes the call void. The
  y axis points down and angles turn clockwise from the positive x axis.
\<close>

type_synonym point = "rat \<times> rat"

datatype segment = Line point point | Curve point rat nat nat

record path =
  sub_first :: "point option"
  pen :: "point option"
  segments :: "segment list"

definition cos_q :: "nat \<Rightarrow> rat" where
  "cos_q a = (if a mod 4 = 0 then 1 else if a mod 4 = 2 then - 1 else 0)"

definition sin_q :: "nat \<Rightarrow> rat" where
  "sin_q a = (if a mod 4 = 1 then 1 else if a mod 4 = 3 then - 1 else 0)"

definition arc_point :: "rat \<Rightarrow> rat \<Rightarrow> rat \<Rightarrow> nat \<Rightarrow> point" where
  "arc_point cx cy r a = (cx + r * cos_q a, cy + r * sin_q a)"

definition empty_path :: path where
  "empty_path = \<lparr>sub_first = None, pen = None, segments = []\<rparr>"

fun trace_call :: "call \<Rightarrow> path \<Rightarrow> path" where
  "trace_call BeginPath p = empty_path"
| "trace_call (MoveTo (Num x) (Num y)) p = p\<lparr>sub_first := Some (x, y), pen := Some (x, y)\<rparr>"
| "trace_call (LineTo (Num x) (Num y)) p =
     (case pen p of
        None \<Rightarrow> p\<lparr>sub_first := Some (x, y), pen := Some (x, y)\<rparr>
      | Some q \<Rightarrow> p\<lparr>pen := Some (x, y), segments := segments p @ [Line q (x, y)]\<rparr>)"
| "trace_call (Arc cx cy r a0 a1) p =
     p\<lparr>sub_first := (case pen p of None \<Rightarrow> Some (arc_point cx cy r a0) | Some q \<Rightarrow> sub_first p),
       pen := Some (arc_point cx cy r a1),
       segments := segments p @
         (case pen p of None \<Rightarrow> [] | Some q \<Rightarrow> [Line q (arc_point cx cy r a0)]) @
         (if r = 0 then [] else [Curve (cx, cy) r a0 a1])\<rparr>"
| "trace_call ClosePath p =
     (case sub_first p of
        None \<Rightarrow> p
      | Some f \<Rightarrow>
          (case pen p of
             None \<Rightarrow> p
           | Some q \<Rightarrow> p\<lparr>pen := Some f, segments := segments p @ [Line q f]\<rparr>))"
| "trace_call _ p = p"

definition outline :: "call list \<Rightarrow> segment list" where
  "outline cs = segments (fold trace_call cs empty_path)"

section \<open>Properties\<close>

declare polygon_loop.simps [simp del]

lemmas prim_defs =
  emit_def beginPath_def moveTo_def lineTo_def arc_def closePath_def fill_def stroke_def
  fillRect_def strokeRect_def clearRect_def fillText_def strokeText_def
  assign_fillStyle_def assign_strokeStyle_def

text \<open>The loop of \<open>drawPolygon\<close>: it touches no style and appends one \<open>moveTo\<close> per step.\<close>

lemma polygon_loop_fillStyle: "fillStyle (polygon_loop vs i c) = fillStyle c"
  by (induction vs i c rule: polygon_loop.induct)
    (subst polygon_loop.simps, simp add: moveTo_def emit_def)

lemma polygon_loop_strokeStyle: "strokeStyle (polygon_loop vs i c) = strokeStyle c"
  by (induction vs i c rule: polygon_loop.induct)
    (subst polygon_loop.simps, simp add: moveTo_def emit_def)

lemma upt_half_step:
  assumes "i < n"
  shows "[0..<(n - i + 1) div 2] = 0 # map Suc [0..<(n - (i + 2) + 1) div 2]"
proof -
  have "(n - i + 1) div 2 = Suc ((n - (i + 2) + 1) div 2)"
    using assms by (cases "n - i") (auto simp: Suc_diff_le)
  then show ?thesis
    by (simp add: upt_conv_Cons map_Suc_upt del: upt_Suc)
qed

lemma polygon_loop_calls:
  "calls (polygon_loop vs i c) =
     calls c @ map (\<lambda>j. MoveTo (js_nth vs (i + 2 * j)) (js_nth vs (i + 2 * j + 1)))
                 [0..<(length vs - i + 1) div 2]"
proof (induction vs i c rule: polygon_loop.induct)
  case (1 vs i c)
  show ?case
  proof (cases "i < length vs")
    case True
    have step: "calls (polygon_loop vs i c) =
        calls (polygon_loop vs (i + 2) (moveTo (js_nth vs i) (js_nth vs (i + 1)) c))"
      using True by (subst polygon_loop.simps) simp
    show ?thesis
      unfolding step "1.IH"[OF True] upt_half_step[OF True]
      by (simp add: moveTo_def emit_def comp_def del: polygon_loop.simps upt_Suc)
  next
    case False
    then show ?thesis by (subst polygon_loop.simps) simp
  qed
qed

subsection \<open>The calls each operation makes\<close>

lemma drawLine_calls:
  "calls (ctx (drawLine x1 y1 x2 y2 color s)) =
     calls (ctx s) @
     [BeginPath, MoveTo (Num (posfix s x1)) (Num (posfix s y1)),
      LineTo (Num (posfix s x2)) (Num (posfix s y2)),
      Stroke (pick color (strokeStyle (ctx s)))]"
  by (simp add: drawLine_def Let_def prim_defs pick_def split: option.split)

lemma drawRect_calls:
  "calls (ctx (drawRect x y w h color isFill s)) =
     calls (ctx s) @
     [if isFill then FillRect x y w h (pick color (fillStyle (ctx s)))
      else StrokeRect (posfix s x) (posfix s y) w h (pick color (strokeStyle (ctx s)))]"
  by (simp add: drawRect_def Let_def prim_defs pick_def split: option.split)

lemma drawRoundedRect_calls:
  "calls (ctx (drawRoundedRect x y w h r color isFill s)) =
     calls (ctx s) @
     [BeginPath, Arc (x + r) (y + r) r 2 3, Arc (x + w - r) (y + r) r 3 0,
      Arc (x + w - r) (y + h - r) r 0 1, Arc (x + r) (y + h - r) r 1 2, ClosePath,
      if isFill then Fill (pick color (fillStyle (ctx s)))
      else Stroke (pick color (strokeStyle (ctx s)))]"
  by (simp add: drawRoundedRect_def Let_def prim_defs pick_def split: option.split)

lemma drawCircle_calls:
  "calls (ctx (drawCircle x y r color isFill s)) =
     calls (ctx s) @
     [BeginPath, Arc x y r 0 4, ClosePath,
      if isFill then Fill (pick color (fillStyle (ctx s)))
      else Stroke (pick color (strokeStyle (ctx s)))]"
  by (simp add: drawCircle_def Let_def prim_defs pick_def split: option.split)

lemma drawPolygon_calls:
  assumes "2 \<le> length vs"
  shows "calls (ctx (drawPolygon (Some vs) color isFill s)) =
     calls (ctx s) @
     BeginPath # LineTo (Num (vs ! 0)) (Num (vs ! 1)) #
     map (\<lambda>j. MoveTo (js_nth vs (2 + 2 * j)) (js_nth vs (2 + 2 * j + 1)))
       [0..<(length vs - 1) div 2] @
     [ClosePath,
      if isFill then Fill (pick color (fillStyle (ctx s)))
      else Stroke (pick color (strokeStyle (ctx s)))]"
proof -
  have n: "length vs - 2 + 1 = length vs - 1"
    using assms by simp
  show ?thesis
    using assms
    by (auto simp add: drawPolygon_def Let_def prim_defs pick_def polygon_loop_calls n
        polygon_loop_fillStyle polygon_loop_strokeStyle js_nth_def
        split: option.split simp del: polygon_loop.simps upt_Suc One_nat_def)
qed

lemma drawText_calls:
  "calls (ctx (drawText x y t color isFill s)) =
     calls (ctx s) @
     [if isFill then FillText t (posfix s x) (posfix s y) (pick color (fillStyle (ctx s)))
      else StrokeText t (posfix s x) (posfix s y) (pick color (strokeStyle (ctx s)))]"
  by (simp add: drawText_def Let_def prim_defs pick_def split: option.split)

lemma drawFill_calls:
  "calls (ctx (drawFill color s)) = calls (ctx s) @ [Fill (pick color (fillStyle (ctx s)))]"
  by (simp add: drawFill_def prim_defs pick_def split: option.split)

lemma drawStroke_calls:
  "calls (ctx (drawStroke color s)) = calls (ctx s) @ [Stroke (pick color (strokeStyle (ctx s)))]"
  by (simp add: drawStroke_def prim_defs pick_def split: option.split)

lemma clear_CanvasJs_calls:
  "calls (ctx (clear CanvasJs color s)) =
     calls (ctx s) @ [FillRect 0 0 (getWidth s) (getHeight s) (pick color (fillStyle (ctx s)))]"
  by (simp add: clear_def Let_def prim_defs pick_def getWidth_def getHeight_def
      split: option.split)

lemma clear_Part000_calls:
  "calls (ctx (clear Part000 color s)) =
     calls (ctx s) @ ClearRect 0 0 (getWidth s) (getHeight s) #
     (if color \<noteq> None \<and> color \<noteq> Some (Colour ''clear'')
      then [FillRect 0 0 (getWidth s) (getHeight s) (the color)] else [])"
  by (simp add: clear_def Let_def prim_defs getWidth_def getHeight_def split: option.split)

subsection \<open>The styles each operation leaves\<close>

lemma drawLine_styles:
  "fillStyle (ctx (drawLine x1 y1 x2 y2 color s)) = fillStyle (ctx s)"
  "strokeStyle (ctx (drawLine x1 y1 x2 y2 color s)) = pick color (strokeStyle (ctx s))"
  by (simp_all add: drawLine_def Let_def prim_defs pick_def split: option.split)

lemma drawRect_styles:
  "fillStyle (ctx (drawRect x y w h color isFill s)) =
     (if isFill then pick color (fillStyle (ctx s)) else fillStyle (ctx s))"
  "strokeStyle (ctx (drawRect x y w h color isFill s)) =
     (if isFill then strokeStyle (ctx s) else pick color (strokeStyle (ctx s)))"
  by (simp_all add: drawRect_def Let_def prim_defs pick_def split: option.split)

lemma drawRoundedRect_styles:
  "fillStyle (ctx (drawRoundedRect x y w h r color isFill s)) =
     (if isFill then pick color (fillStyle (ctx s)) else fillStyle (ctx s))"
  "strokeStyle (ctx (drawRoundedRect x y w h r color isFill s)) =
     (if isFill then strokeStyle (ctx s) else pick color (strokeStyle (ctx s)))"
  by (simp_all add: drawRoundedRect_def Let_def prim_defs pick_def split: option.split)

lemma drawCircle_styles:
  "fillStyle (ctx (drawCircle x y r color isFill s)) =
     (if isFill then pick color (fillStyle (ctx s)) else fillStyle (ctx s))"
  "strokeStyle (ctx (drawCircle x y r color isFill s)) =
     (if isFill then strokeStyle (ctx s) else pick color (strokeStyle (ctx s)))"
  by (simp_all add: drawCircle_def Let_def prim_defs pick_def split: option.split)

lemma drawPolygon_styles:
  assumes "2 \<le> length vs"
  shows "fillStyle (ctx (drawPolygon (Some vs) color isFill s)) =
     (if isFill then pick color (fillStyle (ctx s)) else fillStyle (ctx s))"
  and "strokeStyle (ctx (drawPolygon (Some vs) color isFill s)) =
     (if isFill then strokeStyle (ctx s) else pick color (strokeStyle (ctx s)))"
  using assms
  by (simp_all add: drawPolygon_def Let_def prim_defs pick_def
      polygon_loop_fillStyle polygon_loop_strokeStyle
      split: option.split del: polygon_loop.simps)

lemma drawText_styles:
  "fillStyle (ctx (drawText x y t color isFill s)) =
     (if isFill then pick color (fillStyle (ctx s)) else fillStyle (ctx s))"
  "strokeStyle (ctx (drawText x y t color isFill s)) =
     (if isFill then strokeStyle (ctx s) else pick color (strokeStyle (ctx s)))"
  by (simp_all add: drawText_def Let_def prim_defs pick_def split: option.split)

lemma drawFill_styles:
  "fillStyle (ctx (drawFill color s)) = pick color (fillStyle (ctx s))"
  "strokeStyle (ctx (drawFill color s)) = strokeStyle (ctx s)"
  by (simp_all add: drawFill_def prim_defs pick_def split: option.split)

lemma drawStroke_styles:
  "fillStyle (ctx (drawStroke color s)) = fillStyle (ctx s)"
  "strokeStyle (ctx (drawStroke color s)) = pick color (strokeStyle (ctx s))"
  by (simp_all add: drawStroke_def prim_defs pick_def split: option.split)

lemma clear_fillStyle:
  "fillStyle (ctx (clear CanvasJs color s)) = pick color (fillStyle (ctx s))"
  "fillStyle (ctx (clear Part000 color s)) =
     (if color \<noteq> None \<and> color \<noteq> Some (Colour ''clear'') then the color
      else fillStyle (ctx s))"
  by (simp_all add: clear_def Let_def prim_defs pick_def split: option.split)

subsection \<open>The presentation state\<close>

lemma presentation_ctx: "presentation (s\<lparr>ctx := c\<rparr>) = presentation s"
  by (simp add: presentation_def getWidth_def getHeight_def)

lemma drawLine_presentation: "presentation (drawLine x1 y1 x2 y2 color s) = presentation s"
  by (simp add: drawLine_def Let_def presentation_ctx)

lemma drawRect_presentation: "presentation (drawRect x y w h color isFill s) = presentation s"
  by (simp add: drawRect_def Let_def presentation_ctx)

lemma drawRoundedRect_presentation:
  "presentation (drawRoundedRect x y w h r color isFill s) = presentation s"
  by (simp add: drawRoundedRect_def Let_def presentation_ctx)

lemma drawCircle_presentation: "presentation (drawCircle x y r color isFill s) = presentation s"
  by (simp add: drawCircle_def Let_def presentation_ctx)

lemma drawPolygon_presentation: "presentation (drawPolygon vertexes color isFill s) = presentation s"
  by (simp add: drawPolygon_def Let_def presentation_ctx split: option.split)

lemma drawText_presentation: "presentation (drawText x y t color isFill s) = presentation s"
  by (simp add: drawText_def Let_def presentation_ctx)

lemma drawFill_presentation: "presentation (drawFill color s) = presentation s"
  by (simp add: drawFill_def presentation_ctx)

lemma drawStroke_presentation: "presentation (drawStroke color s) = presentation s"
  by (simp add: drawStroke_def presentation_ctx)

lemma clear_presentation: "presentation (clear v color s) = presentation s"
  by (simp add: clear_def Let_def presentation_ctx split: variant.split option.split)

subsection \<open>The colour an operation paints with\<close>

lemma drawLine_sticky: "sticky_stroke color s (drawLine x1 y1 x2 y2 color s)"
  unfolding sticky_stroke_def drawLine_styles
  by (simp add: painted_stroke_def last_call_def drawLine_calls)

lemma drawRect_sticky:
  "sticky_fill color s (drawRect x y w h color True s)"
  "sticky_stroke color s (drawRect x y w h color False s)"
  unfolding sticky_fill_def sticky_stroke_def drawRect_styles
  by (simp_all add: painted_fill_def painted_stroke_def last_call_def drawRect_calls)

lemma drawRoundedRect_sticky:
  "sticky_fill color s (drawRoundedRect x y w h r color True s)"
  "sticky_stroke color s (drawRoundedRect x y w h r color False s)"
  unfolding sticky_fill_def sticky_stroke_def drawRoundedRect_styles
  by (simp_all add: painted_fill_def painted_stroke_def last_call_def drawRoundedRect_calls)

lemma drawCircle_sticky:
  "sticky_fill color s (drawCircle x y r color True s)"
  "sticky_stroke color s (drawCircle x y r color False s)"
  unfolding sticky_fill_def sticky_stroke_def drawCircle_styles
  by (simp_all add: painted_fill_def painted_stroke_def last_call_def drawCircle_calls)

lemma drawPolygon_sticky:
  assumes "2 \<le> length vs"
  shows "sticky_fill color s (drawPolygon (Some vs) color True s)"
  and "sticky_stroke color s (drawPolygon (Some vs) color False s)"
  unfolding sticky_fill_def sticky_stroke_def drawPolygon_styles[OF assms]
  by (simp_all add: painted_fill_def painted_stroke_def last_call_def drawPolygon_calls[OF assms]
      del: upt_Suc)

lemma drawText_sticky:
  "sticky_fill color s (drawText x y t color True s)"
  "sticky_stroke color s (drawText x y t color False s)"
  unfolding sticky_fill_def sticky_stroke_def drawText_styles
  by (simp_all add: painted_fill_def painted_stroke_def last_call_def drawText_calls)

lemma drawFill_sticky: "sticky_fill color s (drawFill color s)"
  unfolding sticky_fill_def drawFill_styles
  by (simp add: painted_fill_def last_call_def drawFill_calls)

lemma drawStroke_sticky: "sticky_stroke color s (drawStroke color s)"
  unfolding sticky_stroke_def drawStroke_styles
  by (simp add: painted_stroke_def last_call_def drawStroke_calls)

text \<open>Draw calls that pass no fill colour leave the fill colour of the context.\<close>

lemma drawPolygon_fillStyle_kept:
  "color = None \<or> \<not> isFill \<Longrightarrow>
   fillStyle (ctx (drawPolygon vertexes color isFill s)) = fillStyle (ctx s)"
proof (cases vertexes)
  case None
  then show ?thesis by (simp add: drawPolygon_def)
next
  case (Some vs)
  assume a: "color = None \<or> \<not> isFill"
  show ?thesis
  proof (cases "2 \<le> length vs")
    case True
    then show ?thesis using a Some by (auto simp add: drawPolygon_styles pick_def)
  next
    case False
    then show ?thesis using Some by (simp add: drawPolygon_def)
  qed
qed

lemma draw_step_fillStyle:
  "passes_no_fill d \<Longrightarrow> fillStyle (ctx (draw_step d s)) = fillStyle (ctx s)"
  by (cases d)
    (auto simp add: drawLine_styles drawRect_styles drawRoundedRect_styles drawCircle_styles
      drawPolygon_fillStyle_kept drawText_styles drawFill_styles drawStroke_styles pick_def)

lemma run_draw_calls_fillStyle:
  "list_all passes_no_fill ds \<Longrightarrow>
   fillStyle (ctx (run_draw_calls ds s)) = fillStyle (ctx s)"
  unfolding run_draw_calls_def
  by (induction ds arbitrary: s) (simp_all add: draw_step_fillStyle)

subsection \<open>Paths and fonts\<close>

lemma outline_after_BeginPath: "outline (cs @ BeginPath # ds) = outline (BeginPath # ds)"
  by (simp add: outline_def)

lemma drawRoundedRect_ignores_flag:
  "ctx (drawRoundedRect x y w h r color isFill (s\<lparr>usePositionFix := b\<rparr>)) =
   ctx (drawRoundedRect x y w h r color isFill s)"
  by (simp add: drawRoundedRect_def Let_def)

lemma font_rel_constructor: "font_rel (constructor w h opts) default_font_fields"
  by (simp add: font_rel_def constructor_def default_font_fields_def)

lemma font_step_rel:
  "font_rel s f \<Longrightarrow> font_rel (font_step v ts c s) (latest ts c f)"
  by (cases c)
    (auto simp add: font_rel_def setFontSize_def setFontFamily_def setFontDecorations_def
      setFont_def refreshFont_def Let_def split: option.splits)

lemma font_step_font:
  "font_rel s f \<Longrightarrow> font (ctx (font_step v ts c s)) = composed_font v (latest ts c f)"
  by (cases c; cases v)
    (auto simp add: font_rel_def composed_font_def setFontSize_def setFontFamily_def
      setFontDecorations_def setFont_def refreshFont_def Let_def split: option.splits)

lemma fold_font_rel:
  "font_rel s f \<Longrightarrow> font_rel (fold (font_step v ts) cs s) (fold (latest ts) cs f)"
  by (induction cs arbitrary: s f) (simp_all add: font_step_rel)

subsection \<open>Frame of the draw operations\<close>

text \<open>
  Claim C9. Every draw operation (\<open>drawLine\<close>, \<open>drawRect\<close>, \<open>drawRoundedRect\<close>,
  \<open>drawCircle\<close>, \<open>drawPolygon\<close>, \<open>drawText\<close>, \<open>drawFill\<close>, \<open>drawStroke\<close>, \<open>clear\<close> of
  either file) leaves the position-fix flag, the font family, size and decorations, and the
  width and height of the surface as they were, for all arguments.
\<close>

theorem draw_operations_keep_presentation:
  "presentation (drawLine x1 y1 x2 y2 color s) = presentation s \<and>
   presentation (drawRect x y w h color isFill s) = presentation s \<and>
   presentation (drawRoundedRect x y w h r color isFill s) = presentation s \<and>
   presentation (drawCircle x y r color isFill s) = presentation s \<and>
   presentation (drawPolygon vertexes color isFill s) = presentation s \<and>
   presentation (drawText x y t color isFill s) = presentation s \<and>
   presentation (drawFill color s) = presentation s \<and>
   presentation (drawStroke color s) = presentation s \<and>
   presentation (clear v color s) = presentation s"
  by (simp only: drawLine_presentation drawRect_presentation drawRoundedRect_presentation
      drawCircle_presentation drawPolygon_presentation drawText_presentation
      drawFill_presentation drawStroke_presentation clear_presentation simp_thms)

subsection \<open>drawPolygon on a missing or short vertex list\<close>

text \<open>
  Claim C6. \<open>drawPolygon\<close> called with \<open>null\<close> for the vertex list, or with a list of
  fewer than 2 coordinates, returns the canvas it was given: no call reaches the context,
  and the context's styles and the wrapper's own fields are untouched. The method has no
  failing branch.
\<close>

theorem drawPolygon_short_is_noop:
  assumes "case vertexes of None \<Rightarrow> True | Some vs \<Rightarrow> length vs < 2"
  shows "drawPolygon vertexes color isFill s = s"
  using assms by (simp add: drawPolygon_def split: option.splits)

theorem drawPolygon_short_is_noop_witness:
  "drawPolygon None (Some (Colour ''red'')) True fresh = fresh \<and>
   drawPolygon (Some []) (Some (Colour ''red'')) True fresh = fresh \<and>
   drawPolygon (Some [5]) (Some (Colour ''red'')) False fresh = fresh"
  by (intro conjI; rule drawPolygon_short_is_noop; simp)

subsection \<open>clear\<close>

text \<open>
  Claim C7. \<open>clear(color)\<close> in \<open>part_000\<close> first clears the whole width-by-height surface
  and then, exactly when \<open>color\<close> is neither \<open>null\<close> nor the string \<open>'clear'\<close>, sets the fill
  colour to \<open>color\<close> and fills the whole surface with it. In \<open>Canvas.js\<close> it clears nothing
  and fills the whole surface, with \<open>color\<close> when that is not \<open>null\<close> and with the fill
  colour already set when it is.
\<close>

theorem clear_per_variant:
  "calls (ctx (clear Part000 color s)) =
     calls (ctx s) @ ClearRect 0 0 (getWidth s) (getHeight s) #
     (if color \<noteq> None \<and> color \<noteq> Some (Colour ''clear'')
      then [FillRect 0 0 (getWidth s) (getHeight s) (the color)] else []) \<and>
   fillStyle (ctx (clear Part000 color s)) =
     (if color \<noteq> None \<and> color \<noteq> Some (Colour ''clear'') then the color
      else fillStyle (ctx s)) \<and>
   calls (ctx (clear CanvasJs color s)) =
     calls (ctx s) @ [FillRect 0 0 (getWidth s) (getHeight s) (pick color (fillStyle (ctx s)))] \<and>
   fillStyle (ctx (clear CanvasJs color s)) = pick color (fillStyle (ctx s))"
  by (simp only: clear_Part000_calls clear_CanvasJs_calls clear_fillStyle simp_thms)

subsection \<open>The sticky colour\<close>

text \<open>
  Claim C5, as amended. For \<open>drawLine\<close>, \<open>drawRect\<close>, \<open>drawRoundedRect\<close>, \<open>drawCircle\<close>,
  \<open>drawText\<close>, \<open>drawFill\<close>, \<open>drawStroke\<close>, and for \<open>drawPolygon\<close> on a vertex list of at
  least 2 coordinates: called with \<open>color = null\<close> the operation leaves the fill colour and
  the stroke colour as they were and paints with the one already set; called with a colour
  it sets the fill colour (fill mode) or the stroke colour (stroke and line mode) to it,
  leaves the other one, and paints with it.
\<close>

theorem sticky_colour:
  "sticky_stroke color s (drawLine x1 y1 x2 y2 color s) \<and>
   sticky_fill color s (drawRect x y w h color True s) \<and>
   sticky_stroke color s (drawRect x y w h color False s) \<and>
   sticky_fill color s (drawRoundedRect x y w h r color True s) \<and>
   sticky_stroke color s (drawRoundedRect x y w h r color False s) \<and>
   sticky_fill color s (drawCircle x y r color True s) \<and>
   sticky_stroke color s (drawCircle x y r color False s) \<and>
   (2 \<le> length vs \<longrightarrow>
      sticky_fill color s (drawPolygon (Some vs) color True s) \<and>
      sticky_stroke color s (drawPolygon (Some vs) color False s)) \<and>
   sticky_fill color s (drawText x y t color True s) \<and>
   sticky_stroke color s (drawText x y t color False s) \<and>
   sticky_fill color s (drawFill color s) \<and>
   sticky_stroke color s (drawStroke color s)"
  by (simp add: drawLine_sticky drawRect_sticky drawRoundedRect_sticky drawCircle_sticky
      drawPolygon_sticky drawText_sticky drawFill_sticky drawStroke_sticky)

text \<open>
  The claim as first stated covers every call of \<open>drawPolygon\<close>. On an empty vertex list
  the method returns at its guard before any colour is assigned: called with red on a new
  canvas, the fill colour is still the initial black.
\<close>

theorem sticky_colour_counterexample:
  "fillStyle (ctx (drawPolygon (Some []) (Some (Colour ''red'')) True fresh)) = Colour ''#000000'' \<and>
   \<not> sticky_fill (Some (Colour ''red'')) fresh
       (drawPolygon (Some []) (Some (Colour ''red'')) True fresh)"
  by (simp add: drawPolygon_def sticky_fill_def pick_def fresh_def constructor_def new_context_def)

theorem sticky_colour_witness:
  "(2::nat) \<le> length [0, 0, 100, 0, 50, 50 :: rat] \<and>
   sticky_fill (Some (Colour ''red'')) fresh
     (drawPolygon (Some [0, 0, 100, 0, 50, 50]) (Some (Colour ''red'')) True fresh) \<and>
   sticky_stroke None fresh (drawPolygon (Some [0, 0, 100, 0, 50, 50]) None False fresh) \<and>
   sticky_fill None fresh (drawRect 0 0 10 10 None True fresh)"
  using sticky_colour[where color = "Some (Colour ''red'')" and s = fresh
      and vs = "[0, 0, 100, 0, 50, 50]"]
    sticky_colour[where color = None and s = fresh and x = 0 and y = 0 and w = 10 and h = 10
      and vs = "[0, 0, 100, 0, 50, 50]"]
  by simp

subsection \<open>Coordinates in fill mode\<close>

text \<open>
  Claim C4, as amended. In fill mode \<open>drawRect\<close>, \<open>drawRoundedRect\<close>, \<open>drawCircle\<close> and
  \<open>drawPolygon\<close> (on at least 2 coordinates) pass the caller's coordinates to the context
  with no offset, whatever the position-fix flag is. \<open>drawText\<close> in fill mode passes
  \<open>(x + 0.5, y + 0.5)\<close> to \<open>fillText\<close> when the flag is set and \<open>(x, y)\<close> when it is not.
\<close>

theorem fill_mode_coordinates:
  "calls (ctx (drawRect x y w h color True s)) =
     calls (ctx s) @ [FillRect x y w h (pick color (fillStyle (ctx s)))] \<and>
   calls (ctx (drawRoundedRect x y w h r color True s)) =
     calls (ctx s) @
     [BeginPath, Arc (x + r) (y + r) r 2 3, Arc (x + w - r) (y + r) r 3 0,
      Arc (x + w - r) (y + h - r) r 0 1, Arc (x + r) (y + h - r) r 1 2, ClosePath,
      Fill (pick color (fillStyle (ctx s)))] \<and>
   calls (ctx (drawCircle x y r color True s)) =
     calls (ctx s) @ [BeginPath, Arc x y r 0 4, ClosePath, Fill (pick color (fillStyle (ctx s)))] \<and>
   (2 \<le> length vs \<longrightarrow>
      calls (ctx (drawPolygon (Some vs) color True s)) =
        calls (ctx s) @
        BeginPath # LineTo (Num (vs ! 0)) (Num (vs ! 1)) #
        map (\<lambda>j. MoveTo (js_nth vs (2 + 2 * j)) (js_nth vs (2 + 2 * j + 1)))
          [0..<(length vs - 1) div 2] @
        [ClosePath, Fill (pick color (fillStyle (ctx s)))]) \<and>
   calls (ctx (drawText x y t color True s)) =
     calls (ctx s) @
     [FillText t (if usePositionFix s then x + 1/2 else x)
        (if usePositionFix s then y + 1/2 else y) (pick color (fillStyle (ctx s)))]"
  by (simp add: drawRect_calls drawRoundedRect_calls drawCircle_calls drawPolygon_calls
      drawText_calls posfix_def del: upt_Suc)

text \<open>
  The claim as first stated includes \<open>drawText\<close> among the operations without offset. On a
  new canvas (position fix on) \<open>drawText(0, 0, 'a')\<close> calls \<open>fillText('a', 0.5, 0.5)\<close>.
\<close>

theorem fill_mode_coordinates_counterexample:
  "usePositionFix fresh \<and>
   calls (ctx (drawText 0 0 ''a'' None True fresh)) =
     [FillText ''a'' (1/2) (1/2) (Colour ''#000000'')] \<and>
   calls (ctx (drawText 0 0 ''a'' None True fresh)) \<noteq>
     [FillText ''a'' 0 0 (Colour ''#000000'')]"
  by (simp add: drawText_calls posfix_def pick_def fresh_def constructor_def new_context_def)

theorem fill_mode_coordinates_witness:
  "(2::nat) \<le> length [0, 0, 100, 0, 50, 50 :: rat] \<and>
   calls (ctx (drawPolygon (Some [0, 0, 100, 0, 50, 50]) None True fresh)) =
     [BeginPath, LineTo (Num 0) (Num 0), MoveTo (Num 100) (Num 0), MoveTo (Num 50) (Num 50),
      ClosePath, Fill (Colour ''#000000'')]"
  using fill_mode_coordinates[where color = None and s = fresh and vs = "[0, 0, 100, 0, 50, 50]"]
  by (simp add: js_nth_def pick_def fresh_def constructor_def new_context_def upt_rec)

subsection \<open>clear sets the sticky fill colour\<close>

text \<open>
  Claim C10. \<open>clear\<close> with a colour that is not \<open>null\<close> (and, in \<open>part_000\<close>, not the
  string \<open>'clear'\<close>) leaves that colour as the fill colour of the context, and it stays:
  after any further draw calls that pass no fill colour of their own, a draw call in fill
  mode with \<open>color = null\<close> adds exactly its own calls to the context, and its painting
  call (\<open>fillRect\<close>, \<open>fill\<close> or \<open>fillText\<close>) is made with the colour passed to \<open>clear\<close>.
  With no call in between (\<open>ds = []\<close>) this is the draw call right after \<open>clear\<close>.
\<close>

theorem clear_sets_sticky_fill:
  assumes "v = Part000 \<longrightarrow> p \<noteq> Colour ''clear''"
    and "list_all passes_no_fill ds"
    and "s' = run_draw_calls ds (clear v (Some p) s)"
  shows "fillStyle (ctx (clear v (Some p) s)) = p \<and>
   fillStyle (ctx s') = p \<and>
   calls (ctx (drawRect x y w h None True s')) = calls (ctx s') @ [FillRect x y w h p] \<and>
   calls (ctx (drawRoundedRect x y w h r None True s')) =
     calls (ctx s') @
     [BeginPath, Arc (x + r) (y + r) r 2 3, Arc (x + w - r) (y + r) r 3 0,
      Arc (x + w - r) (y + h - r) r 0 1, Arc (x + r) (y + h - r) r 1 2, ClosePath, Fill p] \<and>
   calls (ctx (drawCircle x y r None True s')) =
     calls (ctx s') @ [BeginPath, Arc x y r 0 4, ClosePath, Fill p] \<and>
   (2 \<le> length vs \<longrightarrow>
      calls (ctx (drawPolygon (Some vs) None True s')) =
        calls (ctx s') @
        BeginPath # LineTo (Num (vs ! 0)) (Num (vs ! 1)) #
        map (\<lambda>j. MoveTo (js_nth vs (2 + 2 * j)) (js_nth vs (2 + 2 * j + 1)))
          [0..<(length vs - 1) div 2] @
        [ClosePath, Fill p]) \<and>
   calls (ctx (drawText x y t None True s')) =
     calls (ctx s') @
     [FillText t (if usePositionFix s' then x + 1/2 else x)
        (if usePositionFix s' then y + 1/2 else y) p] \<and>
   calls (ctx (drawFill None s')) = calls (ctx s') @ [Fill p]"
proof -
  have fs: "fillStyle (ctx (clear v (Some p) s)) = p"
    using assms(1) by (cases v) (simp_all add: clear_fillStyle pick_def)
  have fs': "fillStyle (ctx s') = p"
    using fs assms(2,3) by (simp add: run_draw_calls_fillStyle)
  show ?thesis
    using fs fs'
    by (simp add: drawRect_calls drawRoundedRect_calls drawCircle_calls drawPolygon_calls
        drawText_calls drawFill_calls pick_def posfix_def del: upt_Suc)
qed

theorem clear_sets_sticky_fill_witness:
  "Colour ''blue'' \<noteq> Colour ''clear'' \<and>
   list_all passes_no_fill
     [DrawLine 0 0 10 10 (Some (Colour ''red'')), DrawRect 0 0 5 5 None True,
      DrawCircle 1 1 1 (Some (Colour ''green'')) False] \<and>
   (2::nat) \<le> length [0, 0, 100, 0, 50, 50 :: rat] \<and>
   calls (ctx (drawRect 0 0 10 10 None True
     (run_draw_calls
        [DrawLine 0 0 10 10 (Some (Colour ''red'')), DrawRect 0 0 5 5 None True,
         DrawCircle 1 1 1 (Some (Colour ''green'')) False]
        (clear Part000 (Some (Colour ''blue'')) fresh)))) =
   calls (ctx
     (run_draw_calls
        [DrawLine 0 0 10 10 (Some (Colour ''red'')), DrawRect 0 0 5 5 None True,
         DrawCircle 1 1 1 (Some (Colour ''green'')) False]
        (clear Part000 (Some (Colour ''blue'')) fresh))) @
   [FillRect 0 0 10 10 (Colour ''blue'')] \<and>
   calls (ctx (drawFill None (clear CanvasJs (Some (Colour ''clear'')) fresh))) =
   calls (ctx (clear CanvasJs (Some (Colour ''clear'')) fresh)) @ [Fill (Colour ''clear'')]"
  using clear_sets_sticky_fill[where v = Part000 and p = "Colour ''blue''" and s = fresh
      and ds = "[DrawLine 0 0 10 10 (Some (Colour ''red'')), DrawRect 0 0 5 5 None True,
         DrawCircle 1 1 1 (Some (Colour ''green'')) False]"
      and x = 0 and y = 0 and w = 10 and h = 10 and vs = "[0, 0, 100, 0, 50, 50]", OF _ _ refl]
    clear_sets_sticky_fill[where v = CanvasJs and p = "Colour ''clear''" and s = fresh
      and ds = "[]", OF _ _ refl]
  by (simp add: run_draw_calls_def)

lemma clear_then_draw_example:
  "calls (ctx (drawRect 0 0 10 10 None True
     (run_draw_calls
        [DrawLine 0 0 10 10 (Some (Colour ''red'')), DrawRect 0 0 5 5 None True]
        (clear Part000 (Some (Colour ''blue'')) fresh)))) =
   [ClearRect 0 0 100 50, FillRect 0 0 100 50 (Colour ''blue''), BeginPath,
    MoveTo (Num (1/2)) (Num (1/2)), LineTo (Num (21/2)) (Num (21/2)), Stroke (Colour ''red''),
    FillRect 0 0 5 5 (Colour ''blue''), FillRect 0 0 10 10 (Colour ''blue'')]"
  by (simp add: run_draw_calls_def drawRect_def drawLine_def clear_def Let_def prim_defs
      posfix_def fresh_def constructor_def new_context_def)

subsection \<open>The composed font string\<close>

text \<open>
  Claim C3. After any sequence of \<open>setFontFamily\<close>, \<open>setFontSize\<close>, \<open>setFontDecorations\<close>
  and \<open>setFont\<close> calls on a new canvas, the font string last written to the context is
  \<open><decorations joined by one space> <size>px <family>\<close> (the family in double quotes for
  \<open>Canvas.js\<close>), built from the value most recently set of each field on its own; an
  argument of \<open>setFont\<close> that is \<open>null\<close> keeps the value its field had. The sequence is
  written \<open>cs @ [c]\<close>: at least one call has been made, the constructor itself writes no
  font.
\<close>

theorem font_string_follows_latest_fields:
  "font (ctx (run_font_calls v to_string (cs @ [c]) (constructor w h opts))) =
   composed_font v (fold (latest to_string) (cs @ [c]) default_font_fields)"
  by (simp add: run_font_calls_def font_step_font[OF fold_font_rel[OF font_rel_constructor]])

lemma font_string_example:
  "font (ctx (run_font_calls Part000 decimal
     [SetFontDecorations (Some [''bold'', ''italic'']), SetFontFamily ''serif'',
      SetFont None (Some 20) None] fresh)) = ''bold italic 20px serif''"
  by (simp add: run_font_calls_def setFontSize_def setFontFamily_def setFontDecorations_def
      setFont_def refreshFont_def Let_def fresh_def constructor_def new_context_def digit_def)

subsection \<open>Rounded rectangle of radius 0\<close>

text \<open>
  Claim C8. For all \<open>x\<close>, \<open>y\<close>, \<open>width\<close>, \<open>height\<close> and \<open>color\<close>, the path that
  \<open>drawRoundedRect(x, y, width, height, 0, color, false)\<close> builds is the outline of the
  rectangle with corners \<open>(x, y)\<close>, \<open>(x + width, y)\<close>, \<open>(x + width, y + height)\<close>,
  \<open>(x, y + height)\<close>: the four arcs have radius 0 and their centres are these corners, in
  this order, and the edges between them together with \<open>closePath\<close> are the four sides.
\<close>

theorem rounded_rect_radius_zero_is_rectangle:
  "calls (ctx (drawRoundedRect x y w h 0 color False s)) =
     calls (ctx s) @
     [BeginPath, Arc x y 0 2 3, Arc (x + w) y 0 3 0, Arc (x + w) (y + h) 0 0 1,
      Arc x (y + h) 0 1 2, ClosePath, Stroke (pick color (strokeStyle (ctx s)))] \<and>
   outline (calls (ctx (drawRoundedRect x y w h 0 color False s))) =
     [Line (x, y) (x + w, y), Line (x + w, y) (x + w, y + h),
      Line (x + w, y + h) (x, y + h), Line (x, y + h) (x, y)]"
proof -
  have c: "calls (ctx (drawRoundedRect x y w h 0 color False s)) =
     calls (ctx s) @
     [BeginPath, Arc x y 0 2 3, Arc (x + w) y 0 3 0, Arc (x + w) (y + h) 0 0 1,
      Arc x (y + h) 0 1 2, ClosePath, Stroke (pick color (strokeStyle (ctx s)))]"
    by (simp add: drawRoundedRect_calls)
  have "outline (calls (ctx (drawRoundedRect x y w h 0 color False s))) =
     outline [BeginPath, Arc x y 0 2 3, Arc (x + w) y 0 3 0, Arc (x + w) (y + h) 0 0 1,
      Arc x (y + h) 0 1 2, ClosePath, Stroke (pick color (strokeStyle (ctx s)))]"
    unfolding c by (simp only: append_Cons append_Nil outline_after_BeginPath)
  also have "\<dots> = [Line (x, y) (x + w, y), Line (x + w, y) (x + w, y + h),
      Line (x + w, y + h) (x, y + h), Line (x, y + h) (x, y)]"
    by (simp add: outline_def empty_path_def arc_point_def)
  finally show ?thesis using c by simp
qed

subsection \<open>Rounded rectangle in stroke mode\<close>

text \<open>
  Claim C1 says that in stroke mode with position fix on, the stroked path of
  \<open>drawRoundedRect\<close> is built from \<open>(x + 0.5, y + 0.5)\<close>. The method adds 0.5 to \<open>x\<close> and
  \<open>y\<close> only after the path is complete. On a new canvas (position fix on)
  \<open>drawRoundedRect(0, 0, 10, 10, 2, null, false)\<close> strokes the arcs centred at \<open>(2, 2)\<close>,
  \<open>(8, 2)\<close>, \<open>(8, 8)\<close>, \<open>(2, 8)\<close>, the path built from \<open>(0, 0)\<close>, while
  \<open>drawRect(0, 0, 10, 10, null, false)\<close> on the same canvas strokes from \<open>(0.5, 0.5)\<close>.
\<close>

theorem drawRoundedRect_stroke_not_position_fixed:
  "usePositionFix fresh \<and>
   calls (ctx (drawRoundedRect 0 0 10 10 2 None False fresh)) =
     [BeginPath, Arc 2 2 2 2 3, Arc 8 2 2 3 0, Arc 8 8 2 0 1, Arc 2 8 2 1 2, ClosePath,
      Stroke (Colour ''#000000'')] \<and>
   calls (ctx (drawRect 0 0 10 10 None False fresh)) =
     [StrokeRect (1/2) (1/2) 10 10 (Colour ''#000000'')]"
  by (simp add: drawRoundedRect_calls drawRect_calls posfix_def pick_def fresh_def
      constructor_def new_context_def)

subsection \<open>The path of drawPolygon\<close>

text \<open>
  Claim C2 says that \<open>drawPolygon\<close> connects each point of the vertex list to the one
  before it. The method calls \<open>lineTo\<close> for the first point and \<open>moveTo\<close> for every later
  one. On the example of its own documentation, \<open>[0, 0, 100, 0, 50, 50]\<close>, no edge joins
  two of the three points: the only segment of the outline is the closing one, from the last
  point to itself.
\<close>

theorem drawPolygon_moves_instead_of_lines:
  "calls (ctx (drawPolygon (Some [0, 0, 100, 0, 50, 50]) None True fresh)) =
     [BeginPath, LineTo (Num 0) (Num 0), MoveTo (Num 100) (Num 0), MoveTo (Num 50) (Num 50),
      ClosePath, Fill (Colour ''#000000'')] \<and>
   outline (calls (ctx (drawPolygon (Some [0, 0, 100, 0, 50, 50]) None True fresh))) =
     [Line (50, 50) (50, 50)]"
proof -
  have c: "calls (ctx (drawPolygon (Some [0, 0, 100, 0, 50, 50]) None True fresh)) =
     [BeginPath, LineTo (Num 0) (Num 0), MoveTo (Num 100) (Num 0), MoveTo (Num 50) (Num 50),
      ClosePath, Fill (Colour ''#000000'')]"
    by (simp add: drawPolygon_calls js_nth_def pick_def fresh_def constructor_def
        new_context_def upt_rec)
  show ?thesis
    unfolding c by (simp add: outline_def empty_path_def)
qed

end
